theory Spec2Isabelle
  imports Main
begin

section \<open>Values of the host language\<close>

text \<open>
  A property of \<open>process.env\<close> is a string or \<open>undefined\<close>. The stacks read four of
  them with the postfix operator \<open>!\<close>, which only changes the static type of an
  expression, so the values the constructors work with are of this type.
\<close>

datatype jsstring = Undefined | Str string

text \<open>A substitution \<open>${v}\<close> in a template literal converts its value to a string.\<close>

fun ToString :: "jsstring \<Rightarrow> string" where
  "ToString Undefined = ''undefined''"
| "ToString (Str s) = s"

text \<open>
  The results of \<open>parseInt\<close>: not-a-number, or the Number for an integer. \<open>Num n\<close> stands
  for the Number nearest to the integer \<open>n\<close>, which is \<open>n\<close> itself up to \<open>2 ^ 53\<close>; the
  two zeros are not told apart.
\<close>

datatype jsnumber = NaN | Num int

subsection \<open>parseInt with no radix argument\<close>

text \<open>
  Strings are lists of code units; white space and line terminators among the code
  units below 256 are the six ASCII ones and the no-break space.
\<close>

definition isWhiteSpace :: "char \<Rightarrow> bool" where
  "isWhiteSpace c =
     (let n = (of_char c :: nat) in (9 \<le> n \<and> n \<le> 13) \<or> n = 32 \<or> n = 160)"

definition digitValue :: "char \<Rightarrow> nat option" where
  "digitValue c =
     (let n = (of_char c :: nat) in
      if 48 \<le> n \<and> n \<le> 57 then Some (n - 48)
      else if 97 \<le> n \<and> n \<le> 122 then Some (n - 87)
      else if 65 \<le> n \<and> n \<le> 90 then Some (n - 55)
      else None)"

definition isRadixDigit :: "nat \<Rightarrow> char \<Rightarrow> bool" where
  "isRadixDigit R c = (case digitValue c of None \<Rightarrow> False | Some d \<Rightarrow> d < R)"

definition digitOf :: "char \<Rightarrow> nat" where
  "digitOf c = (case digitValue c of None \<Rightarrow> 0 | Some d \<Rightarrow> d)"

text \<open>The integer that a run of digits denotes in radix \<open>R\<close>, most significant first.\<close>

fun mathInt :: "nat \<Rightarrow> nat \<Rightarrow> string \<Rightarrow> nat" where
  "mathInt R acc [] = acc"
| "mathInt R acc (c # cs) = mathInt R (acc * R + digitOf c) cs"

fun signOf :: "string \<Rightarrow> int" where
  "signOf (c # cs) = (if c = CHR ''-'' then - 1 else 1)"
| "signOf [] = 1"

fun dropSign :: "string \<Rightarrow> string" where
  "dropSign (c # cs) = (if c = CHR ''+'' \<or> c = CHR ''-'' then cs else c # cs)"
| "dropSign [] = []"

fun hexPrefixed :: "string \<Rightarrow> bool" where
  "hexPrefixed (a # b # cs) = (a = CHR ''0'' \<and> (b = CHR ''x'' \<or> b = CHR ''X''))"
| "hexPrefixed _ = False"

text \<open>
  The steps of the language standard for \<open>parseInt(string)\<close>: convert the argument to a
  string, skip leading white space, read one sign, let a leading \<open>0x\<close> or \<open>0X\<close> select
  radix 16 (radix 10 otherwise), take the digits up to the first code unit that is not
  one, and answer \<open>NaN\<close> when there is none.
\<close>

definition parseInt :: "jsstring \<Rightarrow> jsnumber" where
  "parseInt v =
     (let inputString = ToString v;
          S = dropWhile isWhiteSpace inputString;
          sign = signOf S;
          S1 = dropSign S;
          R = (if hexPrefixed S1 then 16 else 10);
          S2 = (if hexPrefixed S1 then drop 2 S1 else S1);
          Z = takeWhile (isRadixDigit R) S2
      in if Z = [] then NaN else Num (sign * int (mathInt R 0 Z)))"

section \<open>Configuration\<close>

text \<open>The process environment: a variable is set to a string or is absent.\<close>

type_synonym ProcessEnv = "string \<Rightarrow> string option"

definition process_env :: "ProcessEnv \<Rightarrow> string \<Rightarrow> jsstring" where
  "process_env env k = (case env k of None \<Rightarrow> Undefined | Some s \<Rightarrow> Str s)"

record IEnvTypes =
  ECR_REPOSITORY_NAME :: jsstring
  APP_NAME :: jsstring
  IMAGE_VERSION :: jsstring
  PORT :: jsstring

text \<open>
  Modelled from the spec: the constant that the registry stack imports from the entry
  point, which is not among the sources, is the sentinel tag, the string \<open>latest\<close>.
\<close>

definition LATEST_IMAGE_VERSION :: string where
  "LATEST_IMAGE_VERSION = ''latest''"

text \<open>
  The properties of the stacks. \<open>StreamlitBaseStackProps\<close> is declared in a file that is
  not among the sources; its fields are the ones the constructors read.
\<close>

record StreamlitBaseStackProps =
  appName :: jsstring
  environment :: string
  deployRegion :: string
  platformString :: string

record StreamlitEcrStackProps = StreamlitBaseStackProps +
  repositoryName :: jsstring
  imageVersion :: jsstring

section \<open>The registry stack\<close>

datatype Duration = Days nat | Seconds nat

datatype TagStatus = ANY | TAGGED | UNTAGGED

record LifecycleRule =
  maxImageAge :: "Duration option"
  maxImageCount :: "nat option"
  rulePriority :: nat
  tagStatus :: TagStatus

datatype RemovalPolicy = DESTROY | RETAIN

datatype RepositoryEncryption = AES_256 | KMS

record Repository =
  repositoryId :: string
  repositoryNameProp :: jsstring
  removalPolicy :: RemovalPolicy
  emptyOnDelete :: bool
  encryption :: RepositoryEncryption
  lifecycleRules :: "LifecycleRule list"

definition addLifecycleRule :: "Repository \<Rightarrow> LifecycleRule \<Rightarrow> Repository" where
  "addLifecycleRule repo rule = repo\<lparr>lifecycleRules := lifecycleRules repo @ [rule]\<rparr>"

datatype Platform = LINUX_AMD64 | LINUX_ARM64

record DockerImageAsset =
  assetId :: string
  directory :: string
  platform :: Platform
  dockerfile :: string
  cacheDisabled :: bool

record ECRDeployment =
  deploymentId :: string
  src :: string
  dest :: string

record CfnOutput =
  outputId :: string
  outputValue :: string
  exportName :: string

text \<open>
  Attributes of resources that the provider fills in when it deploys: the registry's
  address, resource name and name, the address under which an image asset is built
  (\<open>asset.imageUri\<close>, a function of the asset), and the domain of the edge
  distribution. The constructors only pass them on.
\<close>

record DeployTimeAttributes =
  repositoryUri :: string
  repositoryArn :: string
  repositoryNameAttr :: string
  imageUri :: "DockerImageAsset \<Rightarrow> string"
  distributionDomainName :: string

record EcrStack =
  thisEcrRepository :: Repository
  dockerImageAsset :: DockerImageAsset
  ecrDeployments :: "ECRDeployment list"
  ecrOutputs :: "CfnOutput list"

text \<open>The identifier prefix \<open>${props.appName}-${props.environment}-${props.platformString}\<close>.\<close>

definition resourcePrefix :: "'a StreamlitBaseStackProps_scheme \<Rightarrow> string" where
  "resourcePrefix props =
     ToString (appName props) @ ''-'' @ environment props @ ''-'' @ platformString props"

definition deployImageVersions :: "'a StreamlitEcrStackProps_scheme \<Rightarrow> jsstring list" where
  "deployImageVersions props =
     (if imageVersion props = Str LATEST_IMAGE_VERSION
      then [imageVersion props]
      else [imageVersion props, Str LATEST_IMAGE_VERSION])"

definition newECRDeployment ::
  "'a StreamlitEcrStackProps_scheme \<Rightarrow> DeployTimeAttributes \<Rightarrow> DockerImageAsset
     \<Rightarrow> jsstring \<Rightarrow> ECRDeployment" where
  "newECRDeployment props att asset deployImageVersion =
     \<lparr>deploymentId = ToString (appName props) @ ''-'' @ environment props @ ''-''
          @ ToString deployImageVersion @ ''-ECRDeployment'',
      src = imageUri att asset,
      dest = repositoryUri att @ '':'' @ ToString deployImageVersion\<rparr>"

definition StreamlitEcrDeploymentCdkStack ::
  "'a StreamlitEcrStackProps_scheme \<Rightarrow> DeployTimeAttributes \<Rightarrow> EcrStack" where
  "StreamlitEcrDeploymentCdkStack props att =
     (let repo0 = \<lparr>repositoryId = resourcePrefix props @ ''-DockerImageEcrRepository'',
                   repositoryNameProp = repositoryName props,
                   removalPolicy = DESTROY,
                   emptyOnDelete = True,
                   encryption = AES_256,
                   lifecycleRules = []\<rparr>;
          repo1 = addLifecycleRule repo0
                   \<lparr>maxImageAge = Some (Days 7), maxImageCount = None,
                    rulePriority = 1, tagStatus = UNTAGGED\<rparr>;
          repo2 = addLifecycleRule repo1
                   \<lparr>maxImageAge = None, maxImageCount = Some 4,
                    rulePriority = 2, tagStatus = ANY\<rparr>;
          asset = \<lparr>assetId = ToString (appName props) @ ''-'' @ environment props
                              @ ''-DockerImageAsset'',
                   directory = ''../coreservices'',
                   platform = (if platformString props = ''arm''
                               then LINUX_ARM64 else LINUX_AMD64),
                   dockerfile = ''Dockerfile'',
                   cacheDisabled = True\<rparr>
      in \<lparr>thisEcrRepository = repo2,
          dockerImageAsset = asset,
          ecrDeployments =
            map (newECRDeployment props att asset) (deployImageVersions props),
          ecrOutputs =
            [\<lparr>outputId = resourcePrefix props @ ''-ECRRepositoryArn'',
              outputValue = repositoryArn att,
              exportName = resourcePrefix props @ ''-ECRRepositoryArn''\<rparr>,
             \<lparr>outputId = resourcePrefix props @ ''-ECRRepositoryName'',
              outputValue = repositoryNameAttr att,
              exportName = resourcePrefix props @ ''-ECRRepositoryName''\<rparr>]\<rparr>)"

section \<open>The compute stack behind the edge distribution\<close>

text \<open>
  The network handle comes from the network stack, whose class is not among the sources;
  it is only passed on, so it is a name here.
\<close>

datatype Vpc = VpcOf string

record StreamlitEcsStackProps = StreamlitEcrStackProps +
  containerPort :: jsnumber
  ecrRepository :: Repository
  vpc :: Vpc

subsection \<open>Security groups\<close>

text \<open>A peer is an address range or a security group, named by its identifier.\<close>

datatype Peer = Ipv4 string | SecurityGroupPeer string

datatype Port = Tcp jsnumber | AllTraffic

record SecurityGroup =
  securityGroupId :: string
  securityGroupVpc :: Vpc
  allowAllOutbound :: "bool option"
  ingressRules :: "(Peer \<times> Port) list"

text \<open>A rule that the group already has is not added a second time.\<close>

definition addIngressRule :: "SecurityGroup \<Rightarrow> Peer \<Rightarrow> Port \<Rightarrow> SecurityGroup" where
  "addIngressRule sg peer port =
     (if (peer, port) \<in> set (ingressRules sg) then sg
      else sg\<lparr>ingressRules := ingressRules sg @ [(peer, port)]\<rparr>)"

definition asPeer :: "SecurityGroup \<Rightarrow> Peer" where
  "asPeer sg = SecurityGroupPeer (securityGroupId sg)"

subsection \<open>The load-balanced service\<close>

record ApplicationLoadBalancer =
  loadBalancerId :: string
  loadBalancerVpc :: Vpc
  loadBalancerSecurityGroupId :: string
  internetFacing :: bool

datatype CpuArchitecture = ARM64 | X86_64

datatype OperatingSystemFamily = LINUX | WINDOWS_SERVER_2022_CORE

record RuntimePlatform =
  cpuArchitecture :: CpuArchitecture
  operatingSystemFamily :: OperatingSystemFamily

record TaskImageOptions =
  imageRepository :: Repository
  imageTag :: jsstring
  taskContainerPort :: jsnumber
  enableLogging :: bool

text \<open>
  The target group and the listener are made by the service pattern; they are named
  after the service that owns them. The pattern, which is library code, declares the
  container's port mapping as \<open>taskImageOptions.containerPort || 80\<close>: the falsy
  numbers \<open>NaN\<close> and 0 give port 80.
\<close>

fun portOrDefault :: "jsnumber \<Rightarrow> jsnumber" where
  "portOrDefault NaN = Num 80"
| "portOrDefault (Num n) = (if n = 0 then Num 80 else Num n)"

datatype TargetGroup = TargetGroupOf string

datatype Listener = ListenerOf string

record ApplicationLoadBalancedFargateService =
  serviceId :: string
  taskImageOptions :: TaskImageOptions
  declaredContainerPort :: jsnumber
  serviceLoadBalancerId :: string
  securityGroups :: "string list"
  cpu :: nat
  memoryLimitMiB :: nat
  desiredCount :: nat
  runtimePlatform :: RuntimePlatform
  targetGroup :: TargetGroup
  listener :: Listener

subsection \<open>The edge function\<close>

record HttpRequest =
  reqMethod :: string
  uri :: string
  headers :: "(string \<times> string) list"

record CfEvent =
  request :: HttpRequest

record CfResponse =
  statusCode :: nat
  statusDescription :: string
  responseHeaders :: "(string \<times> string) list"

text \<open>The function returns a response object on one path and the request on the other.\<close>

datatype HandlerResult = ReturnsResponse CfResponse | ReturnsRequest HttpRequest

definition handler :: "CfEvent \<Rightarrow> HandlerResult" where
  "handler event =
     (if reqMethod (request event) = ''OPTIONS''
      then ReturnsResponse
             \<lparr>statusCode = 204,
              statusDescription = ''OK'',
              responseHeaders = [(''access-control-allow-origin'', ''*''),
                                 (''access-control-allow-headers'', ''*'')]\<rparr>
      else ReturnsRequest (request event))"

subsection \<open>The distribution and the listener rules\<close>

datatype OriginProtocolPolicy = HTTP_ONLY | HTTPS_ONLY | MATCH_VIEWER

datatype ViewerProtocolPolicy = REDIRECT_TO_HTTPS | ALLOW_ALL_PROTOCOLS

datatype FunctionEventType = VIEWER_REQUEST | VIEWER_RESPONSE

record LoadBalancerV2Origin =
  originLoadBalancerId :: string
  protocolPolicy :: OriginProtocolPolicy
  customHeaders :: "(string \<times> string) list"

record Distribution =
  distributionId :: string
  origin :: LoadBalancerV2Origin
  cachingDisabled :: bool
  compress :: bool
  viewerProtocolPolicy :: ViewerProtocolPolicy
  functionAssociations :: "(string \<times> FunctionEventType) list"

record RedirectOptions =
  host :: string
  permanent :: bool
  protocol :: string
  port :: string

datatype ListenerCondition = HttpHeader string "string list" | PathPatterns "string list"

datatype ListenerAction = Forward "TargetGroup list" | Redirect RedirectOptions

record ApplicationListenerRule =
  ruleId :: string
  ruleListener :: Listener
  priority :: nat
  conditions :: "ListenerCondition list"
  action :: ListenerAction

record FargateStack =
  loadBalancerSecurityGroup :: SecurityGroup
  ecsSecurityGroup :: SecurityGroup
  loadBalancer :: ApplicationLoadBalancer
  fargateService :: ApplicationLoadBalancedFargateService
  corsFunctionId :: string
  streamlitDistribution :: Distribution
  listenerRules :: "ApplicationListenerRule list"
  fargateOutputs :: "CfnOutput list"

definition customHeaderName :: string where
  "customHeaderName = ''X-Verify-Origin''"

definition customHeaderValue :: "'a StreamlitBaseStackProps_scheme \<Rightarrow> string" where
  "customHeaderValue props = ToString (appName props) @ ''-StreamlitCloudFrontDistribution''"

text \<open>
  The constructor of the stack with the edge distribution and the two listener rules
  (the second class of that name in the sources; the first has no listener rule and adds
  no header). The cluster, the task role, the log driver, the platform version, the
  scaling policy, the health check, and the distribution's origin request policy,
  response headers policy, allowed methods and protocol version take no part in what
  follows and are left out.
  The object literal of the origin's custom headers has the key \<open>custom_header_name\<close>.
  The outputs are the ones the constructor declares; the service pattern adds outputs
  of its own, with other identifiers.
\<close>

definition CdkFargateFrontWithVpcDeploymentStack ::
  "'a StreamlitEcsStackProps_scheme \<Rightarrow> DeployTimeAttributes \<Rightarrow> FargateStack" where
  "CdkFargateFrontWithVpcDeploymentStack props att =
     (let existingVpc = vpc props;
          lbSg0 = \<lparr>securityGroupId = resourcePrefix props @ ''-Streamlit-ALB-SecGrp'',
                   securityGroupVpc = existingVpc,
                   allowAllOutbound = None,
                   ingressRules = []\<rparr>;
          lbSg = addIngressRule lbSg0 (Ipv4 ''0.0.0.0/0'') (Tcp (Num 80));
          ecsSg0 = \<lparr>securityGroupId = ''Streamlit-ECS-SecurityGroup'',
                    securityGroupVpc = existingVpc,
                    allowAllOutbound = Some True,
                    ingressRules = []\<rparr>;
          ecsSg1 = addIngressRule ecsSg0 (asPeer lbSg) (Tcp (Num 80));
          ecsSg2 = addIngressRule ecsSg1 (asPeer lbSg) (Tcp (containerPort props));
          ecsSg = addIngressRule ecsSg2 (asPeer ecsSg2) AllTraffic;
          lb = \<lparr>loadBalancerId = resourcePrefix props @ ''-StreamlitLoadBalancer'',
                loadBalancerVpc = vpc props,
                loadBalancerSecurityGroupId = securityGroupId lbSg,
                internetFacing = True\<rparr>;
          svcId = resourcePrefix props @ ''-FargateService'';
          svc = \<lparr>serviceId = svcId,
                 taskImageOptions =
                   \<lparr>imageRepository = ecrRepository props,
                    imageTag = imageVersion props,
                    taskContainerPort = containerPort props,
                    enableLogging = True\<rparr>,
                 declaredContainerPort = portOrDefault (containerPort props),
                 serviceLoadBalancerId = loadBalancerId lb,
                 securityGroups = [securityGroupId ecsSg],
                 cpu = 1024,
                 memoryLimitMiB = 2048,
                 desiredCount = 1,
                 runtimePlatform =
                   \<lparr>cpuArchitecture = (if platformString props = ''arm''
                                       then ARM64 else X86_64),
                    operatingSystemFamily = LINUX\<rparr>,
                 targetGroup = TargetGroupOf svcId,
                 listener = ListenerOf svcId\<rparr>;
          corsId = resourcePrefix props @ ''-CorsFunction'';
          dist = \<lparr>distributionId = resourcePrefix props @ ''-StreamlitDistribution'',
                  origin = \<lparr>originLoadBalancerId = loadBalancerId lb,
                            protocolPolicy = HTTP_ONLY,
                            customHeaders =
                              [(''custom_header_name'', customHeaderValue props)]\<rparr>,
                  cachingDisabled = True,
                  compress = True,
                  viewerProtocolPolicy = REDIRECT_TO_HTTPS,
                  functionAssociations = [(corsId, VIEWER_REQUEST)]\<rparr>;
          forwardRule =
            \<lparr>ruleId = resourcePrefix props @ ''-elbv2-StreamlitApplicationListenerRule'',
             ruleListener = listener svc,
             priority = 1,
             conditions = [HttpHeader customHeaderName [customHeaderValue props]],
             action = Forward [targetGroup svc]\<rparr>;
          redirectRule =
            \<lparr>ruleId = resourcePrefix props @ ''-elbv2-RedirectApplicationListenerRule'',
             ruleListener = listener svc,
             priority = 5,
             conditions = [PathPatterns [''*'']],
             action = Redirect \<lparr>host = distributionDomainName att,
                                permanent = True,
                                protocol = ''HTTPS'',
                                port = ''443''\<rparr>\<rparr>
      in \<lparr>loadBalancerSecurityGroup = lbSg,
          ecsSecurityGroup = ecsSg,
          loadBalancer = lb,
          fargateService = svc,
          corsFunctionId = corsId,
          streamlitDistribution = dist,
          listenerRules = [forwardRule, redirectRule],
          fargateOutputs =
            [\<lparr>outputId = resourcePrefix props @ ''-StreamlitURL'',
              outputValue = ''https://'' @ distributionDomainName att,
              exportName = resourcePrefix props @ ''-StreamlitDistributionURL''\<rparr>]\<rparr>)"

section \<open>The top-level stacks\<close>

text \<open>
  Evaluation of a constructor either throws or returns. The postfix \<open>!\<close> of the four
  reads of \<open>process.env\<close> is a compile-time assertion: it is erased from the program
  that runs, so it hands its operand on, whatever it is.
\<close>

datatype js_error = TypeError

definition nonNullAssertion :: "jsstring \<Rightarrow> js_error + jsstring" where
  "nonNullAssertion v = Inr v"

definition envTyped :: "ProcessEnv \<Rightarrow> js_error + IEnvTypes" where
  "envTyped env =
     (case nonNullAssertion (process_env env ''ECR_REPOSITORY_NAME'') of
        Inl e \<Rightarrow> Inl e
      | Inr r \<Rightarrow>
     (case nonNullAssertion (process_env env ''APP_NAME'') of
        Inl e \<Rightarrow> Inl e
      | Inr a \<Rightarrow>
     (case nonNullAssertion (process_env env ''IMAGE_VERSION'') of
        Inl e \<Rightarrow> Inl e
      | Inr i \<Rightarrow>
     (case nonNullAssertion (process_env env ''PORT'') of
        Inl e \<Rightarrow> Inl e
      | Inr p \<Rightarrow>
          Inr \<lparr>ECR_REPOSITORY_NAME = r, APP_NAME = a, IMAGE_VERSION = i, PORT = p\<rparr>))))"

definition ecrStackPropsOf ::
  "IEnvTypes \<Rightarrow> 'a StreamlitBaseStackProps_scheme \<Rightarrow> StreamlitEcrStackProps" where
  "ecrStackPropsOf cfg props =
     \<lparr>appName = APP_NAME cfg,
      environment = environment props,
      deployRegion = deployRegion props,
      platformString = platformString props,
      repositoryName = ECR_REPOSITORY_NAME cfg,
      imageVersion = IMAGE_VERSION cfg\<rparr>"

text \<open>The name \<open>${envTyped.APP_NAME}-${props.environment}-${props.deployRegion}-<suffix>\<close>.\<close>

definition nestedStackName ::
  "IEnvTypes \<Rightarrow> 'a StreamlitBaseStackProps_scheme \<Rightarrow> string \<Rightarrow> string" where
  "nestedStackName cfg props suffix =
     ToString (APP_NAME cfg) @ ''-'' @ environment props @ ''-'' @ deployRegion props
       @ ''-'' @ suffix"

definition ecsStackPropsOf ::
  "IEnvTypes \<Rightarrow> StreamlitEcrStackProps \<Rightarrow> EcrStack \<Rightarrow> Vpc \<Rightarrow> StreamlitEcsStackProps" where
  "ecsStackPropsOf cfg ecrStackProps ecrStack vpcOfStack =
     \<lparr>appName = appName ecrStackProps,
      environment = environment ecrStackProps,
      deployRegion = deployRegion ecrStackProps,
      platformString = platformString ecrStackProps,
      repositoryName = repositoryName ecrStackProps,
      imageVersion = imageVersion ecrStackProps,
      containerPort = parseInt (PORT cfg),
      ecrRepository = thisEcrRepository ecrStack,
      vpc = vpcOfStack\<rparr>"

record FargateDeployment =
  ecrStackName :: string
  ecrStack :: EcrStack
  vpcStackName :: string
  ecsStackProps :: StreamlitEcsStackProps
  fargateStackName :: string
  fargateStack :: FargateStack

definition CdkStreamlitFargateDeploymentStack ::
  "ProcessEnv \<Rightarrow> 'a StreamlitBaseStackProps_scheme \<Rightarrow> DeployTimeAttributes
     \<Rightarrow> js_error + FargateDeployment" where
  "CdkStreamlitFargateDeploymentStack env props att =
     (case envTyped env of
        Inl e \<Rightarrow> Inl e
      | Inr cfg \<Rightarrow>
          (let ecrStackProps = ecrStackPropsOf cfg props;
               ecrStack = StreamlitEcrDeploymentCdkStack ecrStackProps att;
               vpcName = nestedStackName cfg props ''StreamlitVpcDeploymentCdkStack'';
               ecsProps = ecsStackPropsOf cfg ecrStackProps ecrStack (VpcOf vpcName)
           in Inr \<lparr>ecrStackName =
                      nestedStackName cfg props ''StreamlitEcrDeploymentCdkStack'',
                    ecrStack = ecrStack,
                    vpcStackName = vpcName,
                    ecsStackProps = ecsProps,
                    fargateStackName =
                      nestedStackName cfg props
                        ''CdkFargateCloudFrontWithVpcDeploymentStack'',
                    fargateStack = CdkFargateFrontWithVpcDeploymentStack ecsProps att\<rparr>))"

text \<open>
  The App Runner variant reads the environment and builds the properties with the same
  statements; the class of its nested hosting stack is not among the sources, so the
  result holds the properties that class is constructed with.
\<close>

record AppRunnerDeployment =
  appRunnerEcrStack :: EcrStack
  appRunnerStackName :: string
  appRunnerStackProps :: StreamlitEcsStackProps

definition CdkStreamlitEcrEcsAppRunnerDeploymentStack ::
  "ProcessEnv \<Rightarrow> 'a StreamlitBaseStackProps_scheme \<Rightarrow> DeployTimeAttributes
     \<Rightarrow> js_error + AppRunnerDeployment" where
  "CdkStreamlitEcrEcsAppRunnerDeploymentStack env props att =
     (case envTyped env of
        Inl e \<Rightarrow> Inl e
      | Inr cfg \<Rightarrow>
          (let ecrStackProps = ecrStackPropsOf cfg props;
               ecrStack = StreamlitEcrDeploymentCdkStack ecrStackProps att;
               vpcName = nestedStackName cfg props ''StreamlitVpcDeploymentCdkStack''
           in Inr \<lparr>appRunnerEcrStack = ecrStack,
                    appRunnerStackName =
                      nestedStackName cfg props ''CdkAppRunnerWithVpcDeploymentStack'',
                    appRunnerStackProps =
                      ecsStackPropsOf cfg ecrStackProps ecrStack (VpcOf vpcName)\<rparr>))"

section \<open>What the declared rules mean for a request\<close>

text \<open>
  Modelled from the spec: how the load balancer evaluates a listener's rules is the
  provider's doing and not code of the repository. The spec gives it as a state machine:
  rules are tried in ascending priority, the first rule whose conditions all hold
  decides, and the header condition is an exact comparison of the value. Header names
  are compared without regard to ASCII case, as in HTTP; a path pattern may use \<open>*\<close> for
  any run of characters and \<open>?\<close> for one. A request no rule matches gets the listener's
  default action, which the service pattern sets to forwarding to its target group.
\<close>

definition asciiLower :: "char \<Rightarrow> char" where
  "asciiLower c =
     (let n = (of_char c :: nat) in if 65 \<le> n \<and> n \<le> 90 then char_of (n + 32) else c)"

definition sameHeaderName :: "string \<Rightarrow> string \<Rightarrow> bool" where
  "sameHeaderName a b = (map asciiLower a = map asciiLower b)"

definition carriesHeader :: "HttpRequest \<Rightarrow> string \<Rightarrow> string \<Rightarrow> bool" where
  "carriesHeader req name v =
     list_ex (\<lambda>h. sameHeaderName (fst h) name \<and> snd h = v) (headers req)"

fun wildcardMatch :: "string \<Rightarrow> string \<Rightarrow> bool" where
  "wildcardMatch [] [] = True"
| "wildcardMatch [] (c # cs) = False"
| "wildcardMatch (p # ps) [] = (p = CHR ''*'' \<and> wildcardMatch ps [])"
| "wildcardMatch (p # ps) (c # cs) =
     (if p = CHR ''*'' then wildcardMatch ps (c # cs) \<or> wildcardMatch (p # ps) cs
      else (p = CHR ''?'' \<or> p = c) \<and> wildcardMatch ps cs)"

fun conditionHolds :: "ListenerCondition \<Rightarrow> HttpRequest \<Rightarrow> bool" where
  "conditionHolds (HttpHeader name vs) req = list_ex (carriesHeader req name) vs"
| "conditionHolds (PathPatterns ps) req = list_ex (\<lambda>p. wildcardMatch p (uri req)) ps"

definition ruleMatches :: "ApplicationListenerRule \<Rightarrow> HttpRequest \<Rightarrow> bool" where
  "ruleMatches r req = list_all (\<lambda>c. conditionHolds c req) (conditions r)"

fun firstMatch :: "ApplicationListenerRule list \<Rightarrow> HttpRequest \<Rightarrow> ListenerAction option" where
  "firstMatch [] req = None"
| "firstMatch (r # rs) req = (if ruleMatches r req then Some (action r) else firstMatch rs req)"

definition listenerOutcome ::
  "ApplicationListenerRule list \<Rightarrow> ListenerAction \<Rightarrow> HttpRequest \<Rightarrow> ListenerAction" where
  "listenerOutcome rules defaultAction req =
     (case firstMatch (sort_key priority rules) req of
        None \<Rightarrow> defaultAction
      | Some a \<Rightarrow> a)"

text \<open>
  The outcome of a request at the load balancer of a deployed stack: the request meets
  the listener that the service has on the load balancer, and only the rules declared on
  that listener are evaluated.
\<close>

definition rulesOn :: "Listener \<Rightarrow> ApplicationListenerRule list \<Rightarrow> ApplicationListenerRule list" where
  "rulesOn l rules = filter (\<lambda>r. ruleListener r = l) rules"

definition atLoadBalancer :: "FargateStack \<Rightarrow> HttpRequest \<Rightarrow> ListenerAction" where
  "atLoadBalancer stack req =
     listenerOutcome (rulesOn (listener (fargateService stack)) (listenerRules stack))
       (Forward [targetGroup (fargateService stack)]) req"

text \<open>
  Modelled from the spec: the edge layer is the provider's as well. A viewer request
  first meets the function associated with the viewer-request event; a response object
  it returns is the answer and the origin is not contacted; a request it returns goes to
  the origin with the origin's custom headers set on it.
\<close>

datatype EdgeOutcome = AnsweredAtEdge CfResponse | SentToOrigin HttpRequest

definition setHeaders ::
  "(string \<times> string) list \<Rightarrow> (string \<times> string) list \<Rightarrow> (string \<times> string) list" where
  "setHeaders custom hs =
     filter (\<lambda>h. \<not> list_ex (\<lambda>c. sameHeaderName (fst c) (fst h)) custom) hs @ custom"

definition atEdge :: "FargateStack \<Rightarrow> HttpRequest \<Rightarrow> EdgeOutcome" where
  "atEdge stack req =
     (case handler \<lparr>request = req\<rparr> of
        ReturnsResponse resp \<Rightarrow> AnsweredAtEdge resp
      | ReturnsRequest r \<Rightarrow>
          SentToOrigin
            (r\<lparr>headers := setHeaders (customHeaders (origin (streamlitDistribution stack)))
                            (headers r)\<rparr>))"

section \<open>Readings of the specification and sample inputs\<close>

text \<open>
  The configuration that the four reads of the environment produce.
\<close>

definition resolved :: "ProcessEnv \<Rightarrow> IEnvTypes" where
  "resolved env =
     \<lparr>ECR_REPOSITORY_NAME = process_env env ''ECR_REPOSITORY_NAME'',
      APP_NAME = process_env env ''APP_NAME'',
      IMAGE_VERSION = process_env env ''IMAGE_VERSION'',
      PORT = process_env env ''PORT''\<rparr>"

text \<open>
  The specification's account of the port: the leading run of decimal digits of the
  string is the number, and a string with no leading digit gives \<open>NaN\<close>. It is compared
  with \<open>parseInt\<close> below.
\<close>

definition isDecimalDigit :: "char \<Rightarrow> bool" where
  "isDecimalDigit c = (let n = (of_char c :: nat) in 48 \<le> n \<and> n \<le> 57)"

definition numericPrefix :: "string \<Rightarrow> string" where
  "numericPrefix s = takeWhile isDecimalDigit s"

definition parseIntByPrefix :: "string \<Rightarrow> jsnumber" where
  "parseIntByPrefix s =
     (if numericPrefix s = [] then NaN else Num (int (mathInt 10 0 (numericPrefix s))))"

text \<open>A string that does not begin with white space or a sign.\<close>

fun plainStart :: "string \<Rightarrow> bool" where
  "plainStart [] = True"
| "plainStart (c # cs) = (\<not> (isWhiteSpace c \<or> c = CHR ''+'' \<or> c = CHR ''-''))"




text \<open>Sample inputs: the scenario of the specification, and an environment that lacks a name.\<close>

definition demoEnv :: ProcessEnv where
  "demoEnv = [''ECR_REPOSITORY_NAME'' \<mapsto> ''demo-repo'', ''APP_NAME'' \<mapsto> ''demo'',
              ''IMAGE_VERSION'' \<mapsto> ''1.2.0'', ''PORT'' \<mapsto> ''8501'',
              ''PLATFORMS'' \<mapsto> ''LINUX_ARM64'']"

definition envWithoutAppName :: ProcessEnv where
  "envWithoutAppName = [''ECR_REPOSITORY_NAME'' \<mapsto> ''demo-repo'',
                        ''IMAGE_VERSION'' \<mapsto> ''1.2.0'', ''PORT'' \<mapsto> ''8501'']"

definition demoProps :: StreamlitBaseStackProps where
  "demoProps = \<lparr>appName = Str ''demo'', environment = ''dev'',
                deployRegion = ''us-east-1'', platformString = ''arm''\<rparr>"

definition demoAtt :: DeployTimeAttributes where
  "demoAtt = \<lparr>repositoryUri = ''registry.example/demo-repo'',
              repositoryArn = ''arn:demo-repo'',
              repositoryNameAttr = ''demo-repo'',
              imageUri = (\<lambda>asset. ''assets.example/'' @ assetId asset),
              distributionDomainName = ''d111.edge.example''\<rparr>"

definition demoEcsProps :: StreamlitEcsStackProps where
  "demoEcsProps =
     \<lparr>appName = Str ''demo'', environment = ''dev'', deployRegion = ''us-east-1'',
      platformString = ''arm'', repositoryName = Str ''demo-repo'',
      imageVersion = Str ''1.2.0'', containerPort = Num 8501,
      ecrRepository =
        \<lparr>repositoryId = ''demo-dev-arm-DockerImageEcrRepository'',
         repositoryNameProp = Str ''demo-repo'', removalPolicy = DESTROY,
         emptyOnDelete = True, encryption = AES_256, lifecycleRules = []\<rparr>,
      vpc = VpcOf ''demo-vpc''\<rparr>"

text \<open>Three settings of \<open>PORT\<close>: trailing letters, the empty string, a hexadecimal numeral.\<close>

definition envTrailing :: ProcessEnv where
  "envTrailing = demoEnv(''PORT'' \<mapsto> ''8501abc'')"

definition envEmptyPort :: ProcessEnv where
  "envEmptyPort = demoEnv(''PORT'' \<mapsto> [])"

definition envHexPort :: ProcessEnv where
  "envHexPort = demoEnv(''PORT'' \<mapsto> ''0x1F'')"

definition envZeroPort :: ProcessEnv where
  "envZeroPort = demoEnv(''PORT'' \<mapsto> ''0'')"

definition getRequest :: HttpRequest where
  "getRequest = \<lparr>reqMethod = ''GET'', uri = ''/'', headers = []\<rparr>"

section \<open>Unfolding the constructors\<close>

lemma envTyped_returns: "envTyped env = Inr (resolved env)"
  by (simp add: envTyped_def nonNullAssertion_def resolved_def)

lemma fargate_unfold:
  "CdkStreamlitFargateDeploymentStack env props att =
     Inr \<lparr>ecrStackName =
            nestedStackName (resolved env) props ''StreamlitEcrDeploymentCdkStack'',
          ecrStack =
            StreamlitEcrDeploymentCdkStack (ecrStackPropsOf (resolved env) props) att,
          vpcStackName =
            nestedStackName (resolved env) props ''StreamlitVpcDeploymentCdkStack'',
          ecsStackProps =
            ecsStackPropsOf (resolved env) (ecrStackPropsOf (resolved env) props)
              (StreamlitEcrDeploymentCdkStack (ecrStackPropsOf (resolved env) props) att)
              (VpcOf (nestedStackName (resolved env) props
                        ''StreamlitVpcDeploymentCdkStack'')),
          fargateStackName =
            nestedStackName (resolved env) props
              ''CdkFargateCloudFrontWithVpcDeploymentStack'',
          fargateStack =
            CdkFargateFrontWithVpcDeploymentStack
              (ecsStackPropsOf (resolved env) (ecrStackPropsOf (resolved env) props)
                 (StreamlitEcrDeploymentCdkStack (ecrStackPropsOf (resolved env) props) att)
                 (VpcOf (nestedStackName (resolved env) props
                           ''StreamlitVpcDeploymentCdkStack''))) att\<rparr>"
  unfolding CdkStreamlitFargateDeploymentStack_def envTyped_returns Let_def
  by simp

lemma apprunner_unfold:
  "CdkStreamlitEcrEcsAppRunnerDeploymentStack env props att =
     Inr \<lparr>appRunnerEcrStack =
            StreamlitEcrDeploymentCdkStack (ecrStackPropsOf (resolved env) props) att,
          appRunnerStackName =
            nestedStackName (resolved env) props ''CdkAppRunnerWithVpcDeploymentStack'',
          appRunnerStackProps =
            ecsStackPropsOf (resolved env) (ecrStackPropsOf (resolved env) props)
              (StreamlitEcrDeploymentCdkStack (ecrStackPropsOf (resolved env) props) att)
              (VpcOf (nestedStackName (resolved env) props
                        ''StreamlitVpcDeploymentCdkStack''))\<rparr>"
  unfolding CdkStreamlitEcrEcsAppRunnerDeploymentStack_def envTyped_returns Let_def
  by simp


lemma ecs_props_fields:
  "platformString (ecsStackPropsOf cfg (ecrStackPropsOf cfg props) e v) = platformString props"
  "containerPort (ecsStackPropsOf cfg (ecrStackPropsOf cfg props) e v) = parseInt (PORT cfg)"
  "appName (ecsStackPropsOf cfg (ecrStackPropsOf cfg props) e v) = APP_NAME cfg"
  "imageVersion (ecsStackPropsOf cfg (ecrStackPropsOf cfg props) e v) = IMAGE_VERSION cfg"
  "repositoryName (ecsStackPropsOf cfg (ecrStackPropsOf cfg props) e v) =
     ECR_REPOSITORY_NAME cfg"
  by (simp_all add: ecsStackPropsOf_def ecrStackPropsOf_def)

lemma resolved_fields:
  "ECR_REPOSITORY_NAME (resolved env) = process_env env ''ECR_REPOSITORY_NAME''"
  "APP_NAME (resolved env) = process_env env ''APP_NAME''"
  "IMAGE_VERSION (resolved env) = process_env env ''IMAGE_VERSION''"
  "PORT (resolved env) = process_env env ''PORT''"
  by (simp_all add: resolved_def)

lemma pushed_tags:
  "map dest (ecrDeployments (StreamlitEcrDeploymentCdkStack p att)) =
     map (\<lambda>v. repositoryUri att @ '':'' @ ToString v) (deployImageVersions p)"
  by (simp add: StreamlitEcrDeploymentCdkStack_def newECRDeployment_def Let_def)



lemma wildcardMatch_star: "wildcardMatch ''*'' s"
  by (induction s) simp_all

lemma rules_on_listener:
  "rulesOn (listener (fargateService (CdkFargateFrontWithVpcDeploymentStack p att)))
     (listenerRules (CdkFargateFrontWithVpcDeploymentStack p att)) =
   listenerRules (CdkFargateFrontWithVpcDeploymentStack p att)"
  by (simp add: CdkFargateFrontWithVpcDeploymentStack_def Let_def rulesOn_def)

lemma rules_wiring:
  "map ruleListener (listenerRules (CdkFargateFrontWithVpcDeploymentStack p att)) =
     [listener (fargateService (CdkFargateFrontWithVpcDeploymentStack p att)),
      listener (fargateService (CdkFargateFrontWithVpcDeploymentStack p att))]"
  "serviceLoadBalancerId (fargateService (CdkFargateFrontWithVpcDeploymentStack p att)) =
     loadBalancerId (loadBalancer (CdkFargateFrontWithVpcDeploymentStack p att))"
  "map priority (listenerRules (CdkFargateFrontWithVpcDeploymentStack p att)) = [1, 5]"
  by (simp_all add: CdkFargateFrontWithVpcDeploymentStack_def Let_def)

lemma sg_ids_differ: "x @ ''-Streamlit-ALB-SecGrp'' \<noteq> ''Streamlit-ECS-SecurityGroup''"
proof
  assume "x @ ''-Streamlit-ALB-SecGrp'' = ''Streamlit-ECS-SecurityGroup''"
  then have "rev (x @ ''-Streamlit-ALB-SecGrp'') = rev ''Streamlit-ECS-SecurityGroup''"
    by (rule arg_cong)
  then show False by simp
qed

lemma ecs_group:
  "ingressRules (ecsSecurityGroup (CdkFargateFrontWithVpcDeploymentStack p att)) =
     (if containerPort p = Num 80
      then [(SecurityGroupPeer (resourcePrefix p @ ''-Streamlit-ALB-SecGrp''), Tcp (Num 80)),
            (SecurityGroupPeer ''Streamlit-ECS-SecurityGroup'', AllTraffic)]
      else [(SecurityGroupPeer (resourcePrefix p @ ''-Streamlit-ALB-SecGrp''), Tcp (Num 80)),
            (SecurityGroupPeer (resourcePrefix p @ ''-Streamlit-ALB-SecGrp''),
             Tcp (containerPort p)),
            (SecurityGroupPeer ''Streamlit-ECS-SecurityGroup'', AllTraffic)])"
  by (simp add: CdkFargateFrontWithVpcDeploymentStack_def addIngressRule_def asPeer_def
      Let_def)

lemma group_ids:
  "securityGroupId (ecsSecurityGroup (CdkFargateFrontWithVpcDeploymentStack p att)) =
     ''Streamlit-ECS-SecurityGroup''"
  "securityGroupId (loadBalancerSecurityGroup (CdkFargateFrontWithVpcDeploymentStack p att)) =
     resourcePrefix p @ ''-Streamlit-ALB-SecGrp''"
  "securityGroups (fargateService (CdkFargateFrontWithVpcDeploymentStack p att)) =
     [''Streamlit-ECS-SecurityGroup'']"
  "loadBalancerSecurityGroupId (loadBalancer (CdkFargateFrontWithVpcDeploymentStack p att)) =
     resourcePrefix p @ ''-Streamlit-ALB-SecGrp''"
  by (simp_all add: CdkFargateFrontWithVpcDeploymentStack_def addIngressRule_def asPeer_def
      Let_def)

lemma rules_in_priority_order:
  "sort_key priority (listenerRules (CdkFargateFrontWithVpcDeploymentStack p att)) =
     listenerRules (CdkFargateFrontWithVpcDeploymentStack p att)"
  by (simp add: CdkFargateFrontWithVpcDeploymentStack_def Let_def)

lemma listener_decides:
  "atLoadBalancer (CdkFargateFrontWithVpcDeploymentStack props att) req =
     (if carriesHeader req ''X-Verify-Origin''
           (ToString (appName props) @ ''-StreamlitCloudFrontDistribution'')
      then Forward
             [targetGroup (fargateService (CdkFargateFrontWithVpcDeploymentStack props att))]
      else Redirect \<lparr>host = distributionDomainName att, permanent = True,
                     protocol = ''HTTPS'', port = ''443''\<rparr>)"
  unfolding atLoadBalancer_def rules_on_listener listenerOutcome_def rules_in_priority_order
  by (simp add: CdkFargateFrontWithVpcDeploymentStack_def Let_def ruleMatches_def
      customHeaderName_def customHeaderValue_def wildcardMatch_star)

lemma names_differ: "\<not> sameHeaderName ''custom_header_name'' ''X-Verify-Origin''"
  by (simp add: sameHeaderName_def asciiLower_def)

lemma injected_headers:
  "customHeaders (origin (streamlitDistribution
       (CdkFargateFrontWithVpcDeploymentStack p att))) =
     [(''custom_header_name'', ToString (appName p) @ ''-StreamlitCloudFrontDistribution'')]"
  by (simp add: CdkFargateFrontWithVpcDeploymentStack_def Let_def customHeaderValue_def)

lemma matched_conditions:
  "map conditions (listenerRules (CdkFargateFrontWithVpcDeploymentStack p att)) =
     [[HttpHeader ''X-Verify-Origin''
         [ToString (appName p) @ ''-StreamlitCloudFrontDistribution'']],
      [PathPatterns [''*'']]]"
  by (simp add: CdkFargateFrontWithVpcDeploymentStack_def Let_def customHeaderValue_def
      customHeaderName_def)

lemma port_in_stack:
  "(SecurityGroupPeer (securityGroupId (loadBalancerSecurityGroup
        (CdkFargateFrontWithVpcDeploymentStack p att))), Tcp (containerPort p))
     \<in> set (ingressRules (ecsSecurityGroup (CdkFargateFrontWithVpcDeploymentStack p att)))"
  "taskContainerPort (taskImageOptions (fargateService
        (CdkFargateFrontWithVpcDeploymentStack p att))) = containerPort p"
  "declaredContainerPort (fargateService (CdkFargateFrontWithVpcDeploymentStack p att)) =
     portOrDefault (containerPort p)"
proof -
  show "(SecurityGroupPeer (securityGroupId (loadBalancerSecurityGroup
        (CdkFargateFrontWithVpcDeploymentStack p att))), Tcp (containerPort p))
     \<in> set (ingressRules (ecsSecurityGroup (CdkFargateFrontWithVpcDeploymentStack p att)))"
    unfolding ecs_group group_ids by simp
qed (simp_all add: CdkFargateFrontWithVpcDeploymentStack_def Let_def)



subsection \<open>parseInt on strings that start plainly\<close>

lemma isRadixDigit_10: "isRadixDigit 10 c = isDecimalDigit c"
  by (auto simp: isRadixDigit_def isDecimalDigit_def digitValue_def Let_def)

lemma takeWhile_radix_10: "takeWhile (isRadixDigit 10) s = takeWhile isDecimalDigit s"
  by (rule takeWhile_cong) (simp_all add: isRadixDigit_10)

lemma plainStart_dropWhile: "plainStart s \<Longrightarrow> dropWhile isWhiteSpace s = s"
  by (cases s) simp_all

lemma plainStart_sign: "plainStart s \<Longrightarrow> signOf s = 1 \<and> dropSign s = s"
  by (cases s) auto

lemma parseInt_plain:
  assumes "plainStart s" and "\<not> hexPrefixed s"
  shows "parseInt (Str s) = parseIntByPrefix s"
  using assms
  by (simp add: parseInt_def parseIntByPrefix_def numericPrefix_def Let_def
      plainStart_dropWhile plainStart_sign takeWhile_radix_10)

lemma prefix_of_trailing: "parseIntByPrefix ''8501abc'' = Num 8501"
  by (simp add: parseIntByPrefix_def numericPrefix_def isDecimalDigit_def digitValue_def
      digitOf_def)

lemma prefix_of_empty: "parseIntByPrefix [] = NaN"
  by (simp add: parseIntByPrefix_def numericPrefix_def)

lemma parseInt_undefined: "parseInt Undefined = NaN"
  by (simp add: parseInt_def isWhiteSpace_def isRadixDigit_def digitValue_def digitOf_def)

section \<open>The registry\<close>

text \<open>
  C4. Whatever the properties, the registry has exactly two lifecycle rules, in this
  order: priority 1 for untagged images older than 7 days, priority 2 for keeping 4
  images of any tag status.
\<close>

theorem lifecycle_rules_fixed:
  "lifecycleRules (thisEcrRepository (StreamlitEcrDeploymentCdkStack props att)) =
     [\<lparr>maxImageAge = Some (Days 7), maxImageCount = None,
       rulePriority = 1, tagStatus = UNTAGGED\<rparr>,
      \<lparr>maxImageAge = None, maxImageCount = Some 4,
       rulePriority = 2, tagStatus = ANY\<rparr>]"
  by (simp add: StreamlitEcrDeploymentCdkStack_def addLifecycleRule_def Let_def)

text \<open>
  C3. The registry stack declares one push, to the tag \<open>latest\<close>, when the image version
  is the sentinel, and otherwise exactly two: to the requested version and to \<open>latest\<close>.
\<close>

theorem pushes_by_version:
  "map dest (ecrDeployments (StreamlitEcrDeploymentCdkStack props att)) =
     (if imageVersion props = Str LATEST_IMAGE_VERSION
      then [repositoryUri att @ '':latest'']
      else [repositoryUri att @ '':'' @ ToString (imageVersion props),
            repositoryUri att @ '':latest''])"
  by (simp add: pushed_tags deployImageVersions_def LATEST_IMAGE_VERSION_def)

text \<open>
  C10. When the image version is not the sentinel, the stack declares two pushes, and
  the source of both is the address of the one image asset that the stack builds.
\<close>

theorem two_pushes_one_image:
  assumes "imageVersion props \<noteq> Str LATEST_IMAGE_VERSION"
  shows "ecrDeployments (StreamlitEcrDeploymentCdkStack props att) =
     [\<lparr>deploymentId = ToString (appName props) @ ''-'' @ environment props @ ''-''
          @ ToString (imageVersion props) @ ''-ECRDeployment'',
       src = imageUri att (dockerImageAsset (StreamlitEcrDeploymentCdkStack props att)),
       dest = repositoryUri att @ '':'' @ ToString (imageVersion props)\<rparr>,
      \<lparr>deploymentId = ToString (appName props) @ ''-'' @ environment props
          @ ''-latest-ECRDeployment'',
       src = imageUri att (dockerImageAsset (StreamlitEcrDeploymentCdkStack props att)),
       dest = repositoryUri att @ '':latest''\<rparr>]
   \<and> dockerImageAsset (StreamlitEcrDeploymentCdkStack props att) =
     \<lparr>assetId = ToString (appName props) @ ''-'' @ environment props
          @ ''-DockerImageAsset'',
      directory = ''../coreservices'',
      platform = (if platformString props = ''arm'' then LINUX_ARM64 else LINUX_AMD64),
      dockerfile = ''Dockerfile'',
      cacheDisabled = True\<rparr>"
  using assms
  by (simp add: StreamlitEcrDeploymentCdkStack_def deployImageVersions_def
      newECRDeployment_def LATEST_IMAGE_VERSION_def Let_def)

theorem two_pushes_one_image_witness:
  "imageVersion demoEcsProps \<noteq> Str LATEST_IMAGE_VERSION
   \<and> ecrDeployments (StreamlitEcrDeploymentCdkStack demoEcsProps demoAtt) =
     [\<lparr>deploymentId = ''demo-dev-1.2.0-ECRDeployment'',
       src = ''assets.example/demo-dev-DockerImageAsset'',
       dest = ''registry.example/demo-repo:1.2.0''\<rparr>,
      \<lparr>deploymentId = ''demo-dev-latest-ECRDeployment'',
       src = ''assets.example/demo-dev-DockerImageAsset'',
       dest = ''registry.example/demo-repo:latest''\<rparr>]
   \<and> assetId (dockerImageAsset (StreamlitEcrDeploymentCdkStack demoEcsProps demoAtt)) =
     ''demo-dev-DockerImageAsset''"
proof -
  have differs: "imageVersion demoEcsProps \<noteq> Str LATEST_IMAGE_VERSION"
    by (simp add: demoEcsProps_def LATEST_IMAGE_VERSION_def)
  from two_pushes_one_image [OF differs, of demoAtt] differs show ?thesis
    by (simp add: demoEcsProps_def demoAtt_def)
qed

section \<open>The compute stack\<close>

text \<open>
  C5. The compute security group, the one group the service runs in, admits exactly
  these inbound rules: from the security group of the service's load balancer on TCP
  port 80, from that group on the container port, and all traffic from the compute
  group itself. No rule has another source. (For container port 80 the first two are
  one rule.)
\<close>

theorem ecs_ingress_rules:
  "set (ingressRules (ecsSecurityGroup (CdkFargateFrontWithVpcDeploymentStack props att))) =
     {(SecurityGroupPeer
         (securityGroupId
            (loadBalancerSecurityGroup (CdkFargateFrontWithVpcDeploymentStack props att))),
       Tcp (Num 80)),
      (SecurityGroupPeer
         (securityGroupId
            (loadBalancerSecurityGroup (CdkFargateFrontWithVpcDeploymentStack props att))),
       Tcp (containerPort props)),
      (SecurityGroupPeer
         (securityGroupId
            (ecsSecurityGroup (CdkFargateFrontWithVpcDeploymentStack props att))),
       AllTraffic)}
   \<and> distinct (ingressRules
         (ecsSecurityGroup (CdkFargateFrontWithVpcDeploymentStack props att)))
   \<and> securityGroups (fargateService (CdkFargateFrontWithVpcDeploymentStack props att)) =
       [securityGroupId
          (ecsSecurityGroup (CdkFargateFrontWithVpcDeploymentStack props att))]
   \<and> loadBalancerSecurityGroupId
         (loadBalancer (CdkFargateFrontWithVpcDeploymentStack props att)) =
       securityGroupId
         (loadBalancerSecurityGroup (CdkFargateFrontWithVpcDeploymentStack props att))
   \<and> serviceLoadBalancerId
         (fargateService (CdkFargateFrontWithVpcDeploymentStack props att)) =
       loadBalancerId (loadBalancer (CdkFargateFrontWithVpcDeploymentStack props att))
   \<and> securityGroupId
         (loadBalancerSecurityGroup (CdkFargateFrontWithVpcDeploymentStack props att)) \<noteq>
       securityGroupId
         (ecsSecurityGroup (CdkFargateFrontWithVpcDeploymentStack props att))"
  unfolding ecs_group group_ids rules_wiring
  by (auto simp: sg_ids_differ)



text \<open>
  C1. Both rules are declared on the listener that the service has on the stack's load
  balancer, with priorities 1 and 5. A request at that load balancer is forwarded to the
  service's target group exactly when it carries the header \<open>X-Verify-Origin\<close> with the
  value \<open><appName>-StreamlitCloudFrontDistribution\<close> (the rule of priority 1); every
  other request is redirected permanently to the distribution's domain over HTTPS on
  port 443 (the rule of priority 5). There is no third outcome.
\<close>

theorem load_balancer_gate:
  "map priority (listenerRules (CdkFargateFrontWithVpcDeploymentStack props att)) = [1, 5]
   \<and> map ruleListener (listenerRules (CdkFargateFrontWithVpcDeploymentStack props att)) =
       [listener (fargateService (CdkFargateFrontWithVpcDeploymentStack props att)),
        listener (fargateService (CdkFargateFrontWithVpcDeploymentStack props att))]
   \<and> serviceLoadBalancerId
         (fargateService (CdkFargateFrontWithVpcDeploymentStack props att)) =
       loadBalancerId (loadBalancer (CdkFargateFrontWithVpcDeploymentStack props att))
   \<and> atLoadBalancer (CdkFargateFrontWithVpcDeploymentStack props att) req =
     (if carriesHeader req ''X-Verify-Origin''
           (ToString (appName props) @ ''-StreamlitCloudFrontDistribution'')
      then Forward
             [targetGroup (fargateService (CdkFargateFrontWithVpcDeploymentStack props att))]
      else Redirect \<lparr>host = distributionDomainName att, permanent = True,
                     protocol = ''HTTPS'', port = ''443''\<rparr>)"
  using rules_wiring [of props att] listener_decides [of props att req]
  by simp

text \<open>
  C2. The header the edge layer sets on requests to the origin should be the header the
  rule of priority 1 matches. In the constructor the values agree but the names do not:
  the origin's header is named \<open>custom_header_name\<close>, the rule matches
  \<open>X-Verify-Origin\<close>. Evaluated for the application \<open>demo\<close>: a plain GET that comes
  through the edge reaches the load balancer without the header of the rule and is
  redirected, not forwarded.
\<close>

theorem edge_header_misses_gate:
  "customHeaders (origin (streamlitDistribution
       (CdkFargateFrontWithVpcDeploymentStack demoEcsProps demoAtt))) =
     [(''custom_header_name'', ''demo-StreamlitCloudFrontDistribution'')]
   \<and> map conditions (listenerRules
       (CdkFargateFrontWithVpcDeploymentStack demoEcsProps demoAtt)) =
     [[HttpHeader ''X-Verify-Origin'' [''demo-StreamlitCloudFrontDistribution'']],
      [PathPatterns [''*'']]]
   \<and> atEdge (CdkFargateFrontWithVpcDeploymentStack demoEcsProps demoAtt) getRequest =
     SentToOrigin
       \<lparr>reqMethod = ''GET'', uri = ''/'',
        headers = [(''custom_header_name'', ''demo-StreamlitCloudFrontDistribution'')]\<rparr>
   \<and> atLoadBalancer (CdkFargateFrontWithVpcDeploymentStack demoEcsProps demoAtt)
       \<lparr>reqMethod = ''GET'', uri = ''/'',
        headers = [(''custom_header_name'', ''demo-StreamlitCloudFrontDistribution'')]\<rparr> =
     Redirect \<lparr>host = ''d111.edge.example'', permanent = True,
               protocol = ''HTTPS'', port = ''443''\<rparr>"
  unfolding listener_decides atEdge_def injected_headers matched_conditions
  by (simp add: demoEcsProps_def demoAtt_def getRequest_def handler_def setHeaders_def
      carriesHeader_def names_differ)

section \<open>The scenario of the specification\<close>




section \<open>Configuration resolution\<close>

text \<open>
  C8 (as amended). Configuration resolution does not fail at the non-null assertions,
  whether or not a required input is absent: both top-level constructors return, every
  input reaches the properties of the nested stacks as it was read, and an absent one
  reaches them as \<open>undefined\<close>. An absent \<open>APP_NAME\<close> appears as the text \<open>undefined\<close>
  in the stack names, an absent \<open>PORT\<close> gives the container port \<open>NaN\<close>.
\<close>

theorem absent_inputs_carried_on:
  "\<exists>d a. CdkStreamlitFargateDeploymentStack env props att = Inr d
     \<and> CdkStreamlitEcrEcsAppRunnerDeploymentStack env props att = Inr a
     \<and> appRunnerStackProps a = ecsStackProps d
     \<and> repositoryName (ecsStackProps d) = process_env env ''ECR_REPOSITORY_NAME''
     \<and> appName (ecsStackProps d) = process_env env ''APP_NAME''
     \<and> imageVersion (ecsStackProps d) = process_env env ''IMAGE_VERSION''
     \<and> containerPort (ecsStackProps d) = parseInt (process_env env ''PORT'')
     \<and> (env ''ECR_REPOSITORY_NAME'' = None \<longrightarrow> repositoryName (ecsStackProps d) = Undefined)
     \<and> (env ''APP_NAME'' = None \<longrightarrow>
          appName (ecsStackProps d) = Undefined
          \<and> fargateStackName d =
              ''undefined-'' @ environment props @ ''-'' @ deployRegion props
                @ ''-CdkFargateCloudFrontWithVpcDeploymentStack''
          \<and> ecrStackName d =
              ''undefined-'' @ environment props @ ''-'' @ deployRegion props
                @ ''-StreamlitEcrDeploymentCdkStack''
          \<and> vpcStackName d =
              ''undefined-'' @ environment props @ ''-'' @ deployRegion props
                @ ''-StreamlitVpcDeploymentCdkStack''
          \<and> appRunnerStackName a =
              ''undefined-'' @ environment props @ ''-'' @ deployRegion props
                @ ''-CdkAppRunnerWithVpcDeploymentStack'')
     \<and> (env ''IMAGE_VERSION'' = None \<longrightarrow> imageVersion (ecsStackProps d) = Undefined)
     \<and> (env ''PORT'' = None \<longrightarrow> containerPort (ecsStackProps d) = NaN)"
  unfolding fargate_unfold apprunner_unfold
  by (simp add: ecs_props_fields resolved_fields process_env_def parseInt_undefined
      nestedStackName_def)

theorem absent_inputs_carried_on_witness:
  "(Map.empty :: ProcessEnv) ''ECR_REPOSITORY_NAME'' = None
   \<and> (Map.empty :: ProcessEnv) ''APP_NAME'' = None
   \<and> (Map.empty :: ProcessEnv) ''IMAGE_VERSION'' = None
   \<and> (Map.empty :: ProcessEnv) ''PORT'' = None
   \<and> (\<exists>d. CdkStreamlitFargateDeploymentStack Map.empty demoProps demoAtt = Inr d
        \<and> repositoryName (ecsStackProps d) = Undefined
        \<and> appName (ecsStackProps d) = Undefined
        \<and> imageVersion (ecsStackProps d) = Undefined
        \<and> containerPort (ecsStackProps d) = NaN
        \<and> fargateStackName d =
            ''undefined-dev-us-east-1-CdkFargateCloudFrontWithVpcDeploymentStack'')"
  using absent_inputs_carried_on [of Map.empty demoProps demoAtt]
  by (auto simp: demoProps_def)

text \<open>
  C8 as stated fails: with \<open>APP_NAME\<close> absent from the environment, neither the four
  reads nor the constructor throw; the configuration holds \<open>undefined\<close> for the name and
  the constructor goes on with it.
\<close>

theorem missing_input_counterexample:
  "envWithoutAppName ''APP_NAME'' = None
   \<and> \<not> isl (envTyped envWithoutAppName)
   \<and> APP_NAME (projr (envTyped envWithoutAppName)) = Undefined
   \<and> \<not> isl (CdkStreamlitFargateDeploymentStack envWithoutAppName demoProps demoAtt)
   \<and> appName (ecsStackProps (projr
        (CdkStreamlitFargateDeploymentStack envWithoutAppName demoProps demoAtt))) = Undefined
   \<and> fargateStackName (projr
        (CdkStreamlitFargateDeploymentStack envWithoutAppName demoProps demoAtt)) =
       ''undefined-dev-us-east-1-CdkFargateCloudFrontWithVpcDeploymentStack''"
  unfolding fargate_unfold envTyped_returns
  by (simp add: ecs_props_fields resolved_fields process_env_def envWithoutAppName_def
      nestedStackName_def demoProps_def)

section \<open>The container port\<close>

text \<open>
  C9 (as amended). The container port is \<open>parseInt(PORT)\<close>, with no validation and no
  error branch. For a \<open>PORT\<close> string that does not begin with white space, a sign or
  \<open>0x\<close>/\<open>0X\<close>, the port is the number of the leading run of decimal digits, the rest of
  the string is dropped, and a string with no leading digit (the empty string too) gives
  \<open>NaN\<close>. The result, \<open>NaN\<close> included, is passed unchanged into the ingress rule of the
  compute security group and into the task image options of the service pattern, in
  both top-level stacks; the container declaration of the pattern has port 80 in place
  of \<open>NaN\<close> or 0.
\<close>

theorem port_by_parseInt:
  "\<exists>d a. CdkStreamlitFargateDeploymentStack env props att = Inr d
     \<and> CdkStreamlitEcrEcsAppRunnerDeploymentStack env props att = Inr a
     \<and> containerPort (ecsStackProps d) = parseInt (process_env env ''PORT'')
     \<and> containerPort (appRunnerStackProps a) = parseInt (process_env env ''PORT'')
     \<and> (SecurityGroupPeer (securityGroupId (loadBalancerSecurityGroup (fargateStack d))),
         Tcp (parseInt (process_env env ''PORT'')))
           \<in> set (ingressRules (ecsSecurityGroup (fargateStack d)))
     \<and> taskContainerPort (taskImageOptions (fargateService (fargateStack d))) =
         parseInt (process_env env ''PORT'')
     \<and> declaredContainerPort (fargateService (fargateStack d)) =
         portOrDefault (parseInt (process_env env ''PORT''))
     \<and> (\<forall>s. env ''PORT'' = Some s \<longrightarrow> plainStart s \<longrightarrow> \<not> hexPrefixed s \<longrightarrow>
           parseInt (process_env env ''PORT'') = parseIntByPrefix s
           \<and> (numericPrefix s = [] \<longrightarrow> parseIntByPrefix s = NaN))"
proof -
  let ?p = "ecsStackPropsOf (resolved env) (ecrStackPropsOf (resolved env) props)
              (StreamlitEcrDeploymentCdkStack (ecrStackPropsOf (resolved env) props) att)
              (VpcOf (nestedStackName (resolved env) props
                        ''StreamlitVpcDeploymentCdkStack''))"
  have cp: "containerPort ?p = parseInt (process_env env ''PORT'')"
    by (simp add: ecs_props_fields resolved_fields)
  have prefix: "\<forall>s. env ''PORT'' = Some s \<longrightarrow> plainStart s \<longrightarrow> \<not> hexPrefixed s \<longrightarrow>
           parseInt (process_env env ''PORT'') = parseIntByPrefix s
           \<and> (numericPrefix s = [] \<longrightarrow> parseIntByPrefix s = NaN)"
    by (simp add: process_env_def parseInt_plain parseIntByPrefix_def)
  show ?thesis
    unfolding fargate_unfold apprunner_unfold
    using port_in_stack [of ?p att] prefix
    by (simp add: cp)
qed

theorem port_by_parseInt_witness:
  "envTrailing ''PORT'' = Some ''8501abc'' \<and> plainStart ''8501abc''
   \<and> \<not> hexPrefixed ''8501abc''
   \<and> (\<exists>d. CdkStreamlitFargateDeploymentStack envTrailing demoProps demoAtt = Inr d
        \<and> containerPort (ecsStackProps d) = Num 8501
        \<and> taskContainerPort (taskImageOptions (fargateService (fargateStack d))) = Num 8501
        \<and> declaredContainerPort (fargateService (fargateStack d)) = Num 8501)
   \<and> envEmptyPort ''PORT'' = Some [] \<and> plainStart [] \<and> \<not> hexPrefixed []
   \<and> numericPrefix [] = []
   \<and> (\<exists>d. CdkStreamlitFargateDeploymentStack envEmptyPort demoProps demoAtt = Inr d
        \<and> containerPort (ecsStackProps d) = NaN
        \<and> taskContainerPort (taskImageOptions (fargateService (fargateStack d))) = NaN
        \<and> declaredContainerPort (fargateService (fargateStack d)) = Num 80)"
proof -
  have t: "envTrailing ''PORT'' = Some ''8501abc''" by (simp add: envTrailing_def)
  have tp: "plainStart ''8501abc''" by (simp add: isWhiteSpace_def)
  have th: "\<not> hexPrefixed ''8501abc''" by simp
  have e: "envEmptyPort ''PORT'' = Some []" by (simp add: envEmptyPort_def)
  have ep: "plainStart []" by simp
  have eh: "\<not> hexPrefixed []" by simp
  have np: "numericPrefix [] = []" by (simp add: numericPrefix_def)
  have d1: "portOrDefault (Num 8501) = Num 8501" by simp
  have d2: "portOrDefault NaN = Num 80" by simp
  from port_by_parseInt [of envTrailing demoProps demoAtt] t tp th
  have first: "\<exists>d. CdkStreamlitFargateDeploymentStack envTrailing demoProps demoAtt = Inr d
        \<and> containerPort (ecsStackProps d) = Num 8501
        \<and> taskContainerPort (taskImageOptions (fargateService (fargateStack d))) = Num 8501
        \<and> declaredContainerPort (fargateService (fargateStack d)) = Num 8501"
    using prefix_of_trailing d1 by metis
  from port_by_parseInt [of envEmptyPort demoProps demoAtt] e ep eh
  have second: "\<exists>d. CdkStreamlitFargateDeploymentStack envEmptyPort demoProps demoAtt = Inr d
        \<and> containerPort (ecsStackProps d) = NaN
        \<and> taskContainerPort (taskImageOptions (fargateService (fargateStack d))) = NaN
        \<and> declaredContainerPort (fargateService (fargateStack d)) = Num 80"
    using prefix_of_empty d2 by metis
  from t tp th e ep eh np first second show ?thesis by blast
qed

text \<open>
  C9 as stated fails. \<open>0x1F\<close> has the leading digit run \<open>0\<close> and is read as 31, in
  radix 16; \<open>0xZ\<close> has the same leading digit and gives \<open>NaN\<close>; a string that begins
  with a space has no leading digit and is read as 80. With \<open>PORT=0x1F\<close> the container
  port of the stack is 31. With an empty \<open>PORT\<close> the \<open>NaN\<close> reaches the ingress rule and
  the task image options, but the container is declared with port 80.
\<close>

theorem port_by_parseInt_counterexample:
  "parseInt (Str ''0x1F'') = Num 31 \<and> parseIntByPrefix ''0x1F'' = Num 0
   \<and> parseInt (Str ''0xZ'') = NaN \<and> parseIntByPrefix ''0xZ'' = Num 0
   \<and> parseInt (Str '' 80'') = Num 80 \<and> parseIntByPrefix '' 80'' = NaN
   \<and> containerPort (ecsStackProps (projr
        (CdkStreamlitFargateDeploymentStack envHexPort demoProps demoAtt))) = Num 31
   \<and> taskContainerPort (taskImageOptions (fargateService (fargateStack (projr
        (CdkStreamlitFargateDeploymentStack envEmptyPort demoProps demoAtt))))) = NaN
   \<and> declaredContainerPort (fargateService (fargateStack (projr
        (CdkStreamlitFargateDeploymentStack envEmptyPort demoProps demoAtt)))) = Num 80
   \<and> declaredContainerPort (fargateService (fargateStack (projr
        (CdkStreamlitFargateDeploymentStack envZeroPort demoProps demoAtt)))) = Num 80"
proof -
  have parsed: "parseInt (Str ''0x1F'') = Num 31 \<and> parseIntByPrefix ''0x1F'' = Num 0
     \<and> parseInt (Str ''0xZ'') = NaN \<and> parseIntByPrefix ''0xZ'' = Num 0
     \<and> parseInt (Str '' 80'') = Num 80 \<and> parseIntByPrefix '' 80'' = NaN"
    by (simp add: parseInt_def parseIntByPrefix_def numericPrefix_def isDecimalDigit_def
        isWhiteSpace_def isRadixDigit_def digitValue_def digitOf_def)
  have hex: "PORT (resolved envHexPort) = Str ''0x1F''"
    by (simp add: resolved_fields process_env_def envHexPort_def)
  have empty: "parseInt (PORT (resolved envEmptyPort)) = NaN"
    by (simp add: resolved_fields process_env_def envEmptyPort_def parseInt_def)
  have zero: "parseInt (PORT (resolved envZeroPort)) = Num 0"
    by (simp add: resolved_fields process_env_def envZeroPort_def parseInt_def
        isWhiteSpace_def isRadixDigit_def digitValue_def digitOf_def)
  have c1: "containerPort (ecsStackProps (projr
        (CdkStreamlitFargateDeploymentStack envHexPort demoProps demoAtt))) = Num 31"
    unfolding fargate_unfold by (simp add: ecs_props_fields hex parsed)
  have c2: "taskContainerPort (taskImageOptions (fargateService (fargateStack (projr
        (CdkStreamlitFargateDeploymentStack envEmptyPort demoProps demoAtt))))) = NaN"
    unfolding fargate_unfold by (simp add: port_in_stack ecs_props_fields empty)
  have c3: "declaredContainerPort (fargateService (fargateStack (projr
        (CdkStreamlitFargateDeploymentStack envEmptyPort demoProps demoAtt)))) = Num 80"
    unfolding fargate_unfold by (simp add: port_in_stack ecs_props_fields empty)
  have c4: "declaredContainerPort (fargateService (fargateStack (projr
        (CdkStreamlitFargateDeploymentStack envZeroPort demoProps demoAtt)))) = Num 80"
    unfolding fargate_unfold by (simp add: port_in_stack ecs_props_fields zero)
  from parsed c1 c2 c3 c4 show ?thesis by simp
qed

end
